theory Spec2Isabelle
  imports Complex_Main
begin

section \<open>The order-list cache: \<^verbatim>\<open>src/hooks/useOrders.ts\<close>\<close>

subsection \<open>Data model\<close>

text \<open>
  The interfaces of the hook. A TypeScript \<^verbatim>\<open>number\<close> that carries a price, a tier or
  an amount is a \<^typ>\<open>real\<close> (NaN and the infinities are not modelled); the page
  counter and the total count are \<^typ>\<open>int\<close>. A value that may be \<^verbatim>\<open>null\<close> or
  \<^verbatim>\<open>undefined\<close> is an \<^typ>\<open>'a option\<close>; no code of the hook tells the two apart.
  \<^verbatim>\<open>status\<close>, \<^verbatim>\<open>orderType\<close> and \<^verbatim>\<open>notificationType\<close> are plain strings, as in the
  source.
\<close>

record user_ref =
  ref_id :: string
  discordName :: string
  inGameName :: "string option"

record order =
  order_id :: string
  itemName :: string
  tier :: real
  pricePerUnit :: real
  amount :: real
  orderType :: string
  status :: string
  createdAt :: string
  fulfilledAt :: "string option"
  creator :: user_ref
  claimer :: "user_ref option"

record user =
  user_id :: string
  discordId :: string
  user_discordName :: string
  user_inGameName :: "string option"

record orders_response =
  resp_orders :: "order list"
  resp_totalCount :: int
  resp_hasMore :: bool
  resp_page :: int
  resp_limit :: int
  resp_currentUser :: "user option"

text \<open>
  \<^verbatim>\<open>Partial<Order>\<close>: every key of \<^verbatim>\<open>Order\<close> may be absent (\<open>None\<close>). For the two keys
  whose value may itself be \<^verbatim>\<open>null\<close>/\<^verbatim>\<open>undefined\<close>, \<open>Some None\<close> is the key present
  with that value.
\<close>

record partial_order =
  p_id :: "string option"
  p_itemName :: "string option"
  p_tier :: "real option"
  p_pricePerUnit :: "real option"
  p_amount :: "real option"
  p_orderType :: "string option"
  p_status :: "string option"
  p_createdAt :: "string option"
  p_fulfilledAt :: "string option option"
  p_creator :: "user_ref option"
  p_claimer :: "user_ref option option"

definition no_updates :: partial_order where
  "no_updates =
     \<lparr>p_id = None, p_itemName = None, p_tier = None, p_pricePerUnit = None,
      p_amount = None, p_orderType = None, p_status = None, p_createdAt = None,
      p_fulfilledAt = None, p_creator = None, p_claimer = None\<rparr>"

text \<open>\<^verbatim>\<open>Object.keys(updates).length\<close>.\<close>

definition present :: "'a option \<Rightarrow> nat" where
  "present v = (case v of None \<Rightarrow> 0 | Some _ \<Rightarrow> 1)"

definition keys_length :: "partial_order \<Rightarrow> nat" where
  "keys_length P =
     present (p_id P) + present (p_itemName P) + present (p_tier P) +
     present (p_pricePerUnit P) + present (p_amount P) + present (p_orderType P) +
     present (p_status P) + present (p_createdAt P) + present (p_fulfilledAt P) +
     present (p_creator P) + present (p_claimer P)"

text \<open>What the event bus delivers in \<^verbatim>\<open>event.detail\<close>, with the fields the handler reads.\<close>

record order_details =
  details_orderType :: string

record payload_claimer =
  claimer_id :: string
  claimer_name :: "string option"
  claimer_inGameName :: "string option"

record notification =
  orderId :: string
  notificationType :: string
  orderDetails :: order_details
  detail_claimer :: "payload_claimer option"

text \<open>
  The two awaited requests of \<^verbatim>\<open>fetchOrders\<close> and how each can end. \<^verbatim>\<open>fetch\<close> may throw,
  the response may be not ok, \<^verbatim>\<open>response.json()\<close> may throw, or the body arrives. No state
  is written between \<^verbatim>\<open>await fetch\<close> and \<^verbatim>\<open>await response.json()\<close>, so the two awaits
  are one outcome.
\<close>

datatype request = GetOrders int | GetUser

datatype pending = AwaitOrders int bool | AwaitUser

datatype fetch_outcome = FetchThrew | RespNotOk | JsonThrew | RespData orders_response

datatype user_outcome = UserThrew | UserNotOk | UserData user

text \<open>
  The state of one mounted hook: the six \<^verbatim>\<open>useState\<close> cells, the two refs, the session
  the context supplies, and the effects the hook has on its surroundings: the calls of
  \<^verbatim>\<open>fetchOrders\<close> suspended at an \<^verbatim>\<open>await\<close> (\<open>inflight\<close>), the requests sent so far,
  the lines written by \<^verbatim>\<open>console.error\<close>, and the callbacks handed to \<^verbatim>\<open>setTimeout\<close>
  as pairs of the time they are due (in ms) and the order id they remove.
\<close>

record hook_state =
  orders :: "order list"
  loading :: bool
  currentUser :: "user option"
  hasMore :: bool
  totalCount :: int
  page :: int
  isLoadingRef :: bool
  hasInitializedRef :: bool
  sessionStatus :: string
  sessionUserId :: "string option"
  inflight :: "pending list"
  requests :: "request list"
  console :: "string list"
  timers :: "(nat \<times> string) list"
  clock :: nat

definition init_state :: hook_state where
  "init_state =
     \<lparr>orders = [], loading = True, currentUser = None, hasMore = False,
      totalCount = 0, page = 1, isLoadingRef = False, hasInitializedRef = False,
      sessionStatus = ''loading'', sessionUserId = None, inflight = [],
      requests = [], console = [], timers = [], clock = 0\<rparr>"

subsection \<open>Local mutation: \<^verbatim>\<open>updateOrder\<close> and \<^verbatim>\<open>removeOrder\<close>\<close>

text \<open>One key of \<^verbatim>\<open>{ ...order, ...updates }\<close>: the update's value when the key is there.\<close>

fun override :: "'a \<Rightarrow> 'a option \<Rightarrow> 'a" where
  "override x None = x"
| "override x (Some v) = v"

definition merge_order :: "order \<Rightarrow> partial_order \<Rightarrow> order" where
  "merge_order ord P =
     \<lparr>order_id = override (order_id ord) (p_id P),
      itemName = override (itemName ord) (p_itemName P),
      tier = override (tier ord) (p_tier P),
      pricePerUnit = override (pricePerUnit ord) (p_pricePerUnit P),
      amount = override (amount ord) (p_amount P),
      orderType = override (orderType ord) (p_orderType P),
      status = override (status ord) (p_status P),
      createdAt = override (createdAt ord) (p_createdAt P),
      fulfilledAt = override (fulfilledAt ord) (p_fulfilledAt P),
      creator = override (creator ord) (p_creator P),
      claimer = override (claimer ord) (p_claimer P)\<rparr>"

definition updateOrder :: "string \<Rightarrow> partial_order \<Rightarrow> hook_state \<Rightarrow> hook_state" where
  "updateOrder oid updates s =
     s\<lparr>orders := map (\<lambda>ord. if order_id ord = oid then merge_order ord updates else ord)
                      (orders s)\<rparr>"

definition removeOrder :: "string \<Rightarrow> hook_state \<Rightarrow> hook_state" where
  "removeOrder oid s = s\<lparr>orders := filter (\<lambda>ord. order_id ord \<noteq> oid) (orders s)\<rparr>"

subsection \<open>Fetching a page: \<^verbatim>\<open>fetchOrders\<close>, \<^verbatim>\<open>loadMore\<close>, \<^verbatim>\<open>refetch\<close>\<close>

text \<open>\<^verbatim>\<open>!session?.user?.id\<close>: no session, no user, no id, or the empty id.\<close>

definition no_session_user :: "hook_state \<Rightarrow> bool" where
  "no_session_user s = (case sessionUserId s of None \<Rightarrow> True | Some u \<Rightarrow> u = [])"

text \<open>
  The call of \<^verbatim>\<open>fetchOrders\<close> up to its first \<^verbatim>\<open>await\<close>: the guard, the in-flight flag,
  the loading flag, and the request for \<^verbatim>\<open>/api/orders?page=..&limit=50&includeUserData=true\<close>.
\<close>

definition fetchOrders :: "int \<Rightarrow> bool \<Rightarrow> hook_state \<Rightarrow> hook_state" where
  "fetchOrders pageNum reset s =
     (if no_session_user s \<or> isLoadingRef s then s
      else s\<lparr>isLoadingRef := True,
             loading := (pageNum = 1),
             requests := requests s @ [GetOrders pageNum],
             inflight := inflight s @ [AwaitOrders pageNum reset]\<rparr>)"

text \<open>The \<^verbatim>\<open>finally\<close> block, after which the call is over.\<close>

definition finish :: "hook_state \<Rightarrow> hook_state" where
  "finish s = s\<lparr>loading := False, isLoadingRef := False, inflight := tl (inflight s)\<rparr>"

definition console_error :: "string \<Rightarrow> hook_state \<Rightarrow> hook_state" where
  "console_error msg s = s\<lparr>console := console s @ [msg]\<rparr>"

text \<open>
  The call resumed when the orders request ends. A body without \<^verbatim>\<open>currentUser\<close> sends the
  second request and suspends the call again, the in-flight flag still set.
\<close>

definition orders_arrived :: "int \<Rightarrow> bool \<Rightarrow> orders_response \<Rightarrow> hook_state \<Rightarrow> hook_state" where
  "orders_arrived pageNum reset d s =
     (let s1 = s\<lparr>orders := (if reset \<or> pageNum = 1 then resp_orders d
                              else orders s @ resp_orders d),
                  hasMore := resp_hasMore d,
                  totalCount := resp_totalCount d,
                  page := pageNum\<rparr>
      in case resp_currentUser d of
           Some u \<Rightarrow> finish (s1\<lparr>currentUser := Some u\<rparr>)
         | None \<Rightarrow> s1\<lparr>requests := requests s1 @ [GetUser],
                       inflight := AwaitUser # tl (inflight s1)\<rparr>)"

definition orders_resolved :: "fetch_outcome \<Rightarrow> hook_state \<Rightarrow> hook_state" where
  "orders_resolved out s =
     (case inflight s of
        AwaitOrders pageNum reset # _ \<Rightarrow>
          (case out of
             FetchThrew \<Rightarrow> finish (console_error ''Error fetching orders:'' s)
           | RespNotOk \<Rightarrow> finish s
           | JsonThrew \<Rightarrow> finish (console_error ''Error fetching orders:'' s)
           | RespData d \<Rightarrow> orders_arrived pageNum reset d s)
      | _ \<Rightarrow> s)"

text \<open>The call resumed when the request for \<^verbatim>\<open>/api/user\<close> ends (the inner \<^verbatim>\<open>try\<close>).\<close>

definition user_resolved :: "user_outcome \<Rightarrow> hook_state \<Rightarrow> hook_state" where
  "user_resolved out s =
     (case inflight s of
        AwaitUser # _ \<Rightarrow>
          (case out of
             UserThrew \<Rightarrow> finish (console_error ''Error fetching user data:'' s)
           | UserNotOk \<Rightarrow> finish s
           | UserData u \<Rightarrow> finish (s\<lparr>currentUser := Some u\<rparr>))
      | _ \<Rightarrow> s)"

definition initial_load :: "hook_state \<Rightarrow> hook_state" where
  "initial_load s =
     (if sessionStatus s = ''loading'' \<or> hasInitializedRef s then s
      else if \<not> no_session_user s then fetchOrders 1 True (s\<lparr>hasInitializedRef := True\<rparr>)
      else s)"

definition loadMore :: "hook_state \<Rightarrow> hook_state" where
  "loadMore s =
     (if hasMore s \<and> \<not> loading s \<and> \<not> isLoadingRef s then fetchOrders (page s + 1) False s
      else s)"

definition refetch :: "hook_state \<Rightarrow> hook_state" where
  "refetch s =
     (if \<not> isLoadingRef s then fetchOrders 1 True (s\<lparr>hasInitializedRef := False\<rparr>)
      else s)"

text \<open>\<^verbatim>\<open>refreshSession\<close> once \<^verbatim>\<open>await update()\<close> is over: resolved, or thrown.\<close>

definition refreshSession :: "bool \<Rightarrow> hook_state \<Rightarrow> hook_state" where
  "refreshSession resolved s =
     (if resolved then refetch s else console_error ''Error refreshing session:'' s)"

subsection \<open>Notifications: \<^verbatim>\<open>handleOrderStatusUpdate\<close>\<close>

text \<open>The claimer object built in the \<^verbatim>\<open>order_claimed\<close> case; \<^verbatim>\<open>name || "Unknown"\<close>.\<close>

definition claimer_of :: "payload_claimer option \<Rightarrow> user_ref option" where
  "claimer_of c =
     (case c of
        None \<Rightarrow> None
      | Some pc \<Rightarrow>
          Some \<lparr>ref_id = claimer_id pc,
                discordName = (case claimer_name pc of
                                 None \<Rightarrow> ''Unknown''
                               | Some n \<Rightarrow> if n = [] then ''Unknown'' else n),
                inGameName = claimer_inGameName pc\<rparr>)"

text \<open>\<^verbatim>\<open>setTimeout(cb, ms)\<close>: the callback is due \<open>ms\<close> after now.\<close>

definition setTimeout :: "string \<Rightarrow> nat \<Rightarrow> hook_state \<Rightarrow> hook_state" where
  "setTimeout oid ms s = s\<lparr>timers := timers s @ [(clock s + ms, oid)]\<rparr>"

text \<open>
  The end of the handler:
  \<^verbatim>\<open>if (Object.keys(statusUpdate).length > 0) updateOrder(orderId, statusUpdate)\<close>.
\<close>

definition apply_update :: "string \<Rightarrow> partial_order \<Rightarrow> hook_state \<Rightarrow> hook_state" where
  "apply_update oid statusUpdate s =
     (if keys_length statusUpdate > 0 then updateOrder oid statusUpdate s else s)"

text \<open>
  The \<^verbatim>\<open>switch\<close> on \<^verbatim>\<open>notificationType\<close>, in the order of its cases; with no case for
  the type, \<^verbatim>\<open>statusUpdate\<close> is still \<^verbatim>\<open>{}\<close>. The \<^verbatim>\<open>order_completed\<close> case returns
  before the end of the handler.
\<close>

definition handleOrderStatusUpdate :: "notification \<Rightarrow> hook_state \<Rightarrow> hook_state" where
  "handleOrderStatusUpdate n s =
     (if notificationType n = ''order_claimed'' then
        (if details_orderType (orderDetails n) = ''SELL''
         then apply_update (orderId n)
                (no_updates\<lparr>p_status := Some ''READY_TO_TRADE'',
                            p_claimer := Some (claimer_of (detail_claimer n))\<rparr>) s
         else apply_update (orderId n)
                (no_updates\<lparr>p_status := Some ''IN_PROGRESS'',
                            p_claimer := Some (claimer_of (detail_claimer n))\<rparr>) s)
      else if notificationType n = ''order_ready'' then
        apply_update (orderId n) (no_updates\<lparr>p_status := Some ''READY_TO_TRADE''\<rparr>) s
      else if notificationType n = ''order_completed'' then
        setTimeout (orderId n) 1000
          (updateOrder (orderId n) (no_updates\<lparr>p_status := Some ''FULFILLED''\<rparr>) s)
      else if notificationType n = ''order_cancelled'' then
        apply_update (orderId n) (no_updates\<lparr>p_status := Some ''OPEN'', p_claimer := Some None\<rparr>) s
      else apply_update (orderId n) no_updates s)"

subsection \<open>Executions of the hook\<close>

text \<open>
  Everything that can happen to a mounted hook, one event at a time on the single UI
  thread. A request resolves only while its call is suspended on it, and a timer fires
  only once it is due; an event that cannot happen leaves the state as it is.
\<close>

datatype event =
    SessionChange string "string option"
  | InitialLoad
  | FetchOrders int bool
  | OrdersResolved fetch_outcome
  | UserResolved user_outcome
  | LoadMore
  | Refetch
  | RefreshSession bool
  | UpdateOrder string partial_order
  | RemoveOrder string
  | Notify notification
  | Advance nat
  | FireTimer nat

definition fire_timer :: "nat \<Rightarrow> hook_state \<Rightarrow> hook_state" where
  "fire_timer i s =
     (if i < length (timers s) \<and> fst (timers s ! i) \<le> clock s
      then removeOrder (snd (timers s ! i))
             (s\<lparr>timers := take i (timers s) @ drop (Suc i) (timers s)\<rparr>)
      else s)"

fun step :: "event \<Rightarrow> hook_state \<Rightarrow> hook_state" where
  "step (SessionChange st u) s = s\<lparr>sessionStatus := st, sessionUserId := u\<rparr>"
| "step InitialLoad s = initial_load s"
| "step (FetchOrders pageNum reset) s = fetchOrders pageNum reset s"
| "step (OrdersResolved out) s = orders_resolved out s"
| "step (UserResolved out) s = user_resolved out s"
| "step LoadMore s = loadMore s"
| "step Refetch s = refetch s"
| "step (RefreshSession resolved) s = refreshSession resolved s"
| "step (UpdateOrder oid updates) s = updateOrder oid updates s"
| "step (RemoveOrder oid) s = removeOrder oid s"
| "step (Notify n) s = handleOrderStatusUpdate n s"
| "step (Advance d) s = s\<lparr>clock := clock s + d\<rparr>"
| "step (FireTimer i) s = fire_timer i s"

fun run :: "hook_state \<Rightarrow> event list \<Rightarrow> hook_state" where
  "run s [] = s"
| "run s (e # es) = run (step e s) es"

section \<open>The edit form: \<^verbatim>\<open>src/components/edit-order-modal.tsx\<close>\<close>

record form_data =
  form_tier :: real
  form_pricePerUnit :: real
  form_amount :: real
  form_orderType :: string

text \<open>
  The state of the mounted dialog: \<^verbatim>\<open>formData\<close>, the ref \<^verbatim>\<open>lastPriceUpdateRef\<close> and the
  three flags. The props \<^verbatim>\<open>order\<close> and \<^verbatim>\<open>isOpen\<close> and the price the pricing hook
  returns for the form's tier (\<^verbatim>\<open>currentPrice\<close>, \<^verbatim>\<open>null\<close> as \<open>None\<close>) come from outside
  and are arguments of the functions that read them.
\<close>

record modal_state =
  formData :: form_data
  lastPriceUpdateRef :: string
  userEditedPrice :: bool
  formInitialized :: bool
  tierChanged :: bool

definition modal_init :: modal_state where
  "modal_init =
     \<lparr>formData = \<lparr>form_tier = 1, form_pricePerUnit = 0, form_amount = 1,
                   form_orderType = ''BUY''\<rparr>,
      lastPriceUpdateRef = [], userEditedPrice = False, formInitialized = False,
      tierChanged = False\<rparr>"

text \<open>The effect on \<^verbatim>\<open>[order]\<close>: the form is reset when an order is there.\<close>

definition order_changed :: "order option \<Rightarrow> modal_state \<Rightarrow> modal_state" where
  "order_changed ordr s =
     (case ordr of
        None \<Rightarrow> s
      | Some ord \<Rightarrow>
          s\<lparr>formData := \<lparr>form_tier = tier ord, form_pricePerUnit = pricePerUnit ord,
                          form_amount = amount ord, form_orderType = orderType ord\<rparr>,
            userEditedPrice := False,
            tierChanged := False,
            lastPriceUpdateRef := [],
            formInitialized := True\<rparr>)"

text \<open>The effect on \<^verbatim>\<open>[isOpen]\<close>: the flags are reset when the dialog is closed.\<close>

definition open_changed :: "bool \<Rightarrow> modal_state \<Rightarrow> modal_state" where
  "open_changed isOpen s =
     (if \<not> isOpen
      then s\<lparr>userEditedPrice := False, tierChanged := False, lastPriceUpdateRef := [],
             formInitialized := False\<rparr>
      else s)"

text \<open>
  The template string \<^verbatim>\<open>${order.itemName}-${formData.tier}-${currentPrice}\<close>. How
  JavaScript writes a number as a string is the parameter \<open>toString\<close>; \<^verbatim>\<open>null\<close> is
  written \<^verbatim>\<open>null\<close>.
\<close>

definition price_key :: "(real \<Rightarrow> string) \<Rightarrow> order \<Rightarrow> real \<Rightarrow> real option \<Rightarrow> string" where
  "price_key toString ord t currentPrice =
     itemName ord @ ''-'' @ toString t @ ''-'' @
     (case currentPrice of None \<Rightarrow> ''null'' | Some p \<Rightarrow> toString p)"

text \<open>
  The effect that fills in the price. Its closure holds the state as the render of the
  effect saw it, \<open>c\<close>: \<^verbatim>\<open>formInitialized\<close>, \<^verbatim>\<open>formData.tier\<close>, \<^verbatim>\<open>userEditedPrice\<close> and
  \<^verbatim>\<open>tierChanged\<close> are read there, \<^verbatim>\<open>order\<close> and \<^verbatim>\<open>currentPrice\<close> are the render's too.
  The ref \<^verbatim>\<open>lastPriceUpdateRef.current\<close> is read and written as it is when the effect
  runs, and \<^verbatim>\<open>setFormData((prev) => ...)\<close> writes onto the form as it is then: that is
  the state \<open>s\<close>, which the effects run before this one in the same commit have written.
\<close>

definition autofill ::
  "(real \<Rightarrow> string) \<Rightarrow> order option \<Rightarrow> real option \<Rightarrow> modal_state \<Rightarrow> modal_state
     \<Rightarrow> modal_state" where
  "autofill toString ordr currentPrice c s =
     (case ordr of
        None \<Rightarrow> s
      | Some ord \<Rightarrow>
          if \<not> formInitialized c then s
          else
            let newPriceKey = price_key toString ord (form_tier (formData c)) currentPrice
            in if lastPriceUpdateRef s = newPriceKey then s
               else (case currentPrice of
                       Some p \<Rightarrow>
                         if \<not> userEditedPrice c \<and> tierChanged c
                         then s\<lparr>formData := (formData s)\<lparr>form_pricePerUnit := p\<rparr>,
                                lastPriceUpdateRef := newPriceKey\<rparr>
                         else s
                     | None \<Rightarrow> s))"

text \<open>What a submit does: one \<^verbatim>\<open>alert\<close>, or the call of \<^verbatim>\<open>onConfirm\<close>.\<close>

datatype submit_effect = Alert string | OnConfirm form_data

definition handleSubmit :: "modal_state \<Rightarrow> submit_effect" where
  "handleSubmit s =
     (if form_tier (formData s) < 1 \<or> form_tier (formData s) > 10
      then Alert ''Tier must be between 1 and 10''
      else if form_pricePerUnit (formData s) \<le> 0
      then Alert ''Price must be greater than 0''
      else if form_amount (formData s) \<le> 0
      then Alert ''Amount must be greater than 0''
      else OnConfirm (formData s))"

definition handleTierChange :: "real \<Rightarrow> modal_state \<Rightarrow> modal_state" where
  "handleTierChange v s =
     s\<lparr>formData := (formData s)\<lparr>form_tier := v\<rparr>,
       tierChanged := True,
       userEditedPrice := False,
       lastPriceUpdateRef := []\<rparr>"

text \<open>
  \<^verbatim>\<open>parseFloat(value) || 0\<close>; \<open>parseFloat\<close> is JavaScript's, \<open>None\<close> where it gives NaN.
\<close>

definition handlePriceChange :: "(string \<Rightarrow> real option) \<Rightarrow> string \<Rightarrow> modal_state \<Rightarrow> modal_state" where
  "handlePriceChange parseFloat v s =
     s\<lparr>formData := (formData s)\<lparr>form_pricePerUnit :=
                         (case parseFloat v of None \<Rightarrow> 0 | Some x \<Rightarrow> x)\<rparr>,
       userEditedPrice := True\<rparr>"

subsection \<open>A render and its effects\<close>

text \<open>
  What one render of the dialog sees: the props \<^verbatim>\<open>isOpen\<close> and \<^verbatim>\<open>order\<close>, the pricing
  table and the price the pricing hook returns for the rendered tier, and the state. The
  order and the pricing table are objects, which the dependency arrays compare by
  identity: the order comes with the number of its object, the pricing table is that
  number alone.
\<close>

record view =
  v_isOpen :: bool
  v_order :: "(nat \<times> order) option"
  v_pricingData :: nat
  v_currentPrice :: "real option"
  v_state :: modal_state

text \<open>The dependency arrays \<^verbatim>\<open>[order]\<close> and, of the effect that fills in the price,
  \<^verbatim>\<open>[currentPrice, pricingData, order, formData.tier, userEditedPrice, formInitialized,
  tierChanged]\<close>.\<close>

definition order_dep :: "view \<Rightarrow> nat option" where
  "order_dep v = map_option fst (v_order v)"

definition autofill_deps ::
  "view \<Rightarrow> real option \<times> nat \<times> nat option \<times> real \<times> bool \<times> bool \<times> bool" where
  "autofill_deps v =
     (v_currentPrice v, v_pricingData v, order_dep v, form_tier (formData (v_state v)),
      userEditedPrice (v_state v), formInitialized (v_state v), tierChanged (v_state v))"

text \<open>An effect runs after the first render, and after a render in which one of its
  dependencies is not what it was in the render before.\<close>

definition dep_changed :: "view option \<Rightarrow> view \<Rightarrow> (view \<Rightarrow> 'a) \<Rightarrow> bool" where
  "dep_changed prev cur dep = (case prev of None \<Rightarrow> True | Some p \<Rightarrow> dep p \<noteq> dep cur)"

text \<open>
  The effects of one render, in the order the component declares them: on \<^verbatim>\<open>[order]\<close>,
  on \<^verbatim>\<open>[isOpen]\<close>, then the one that fills in the price. All three are closures of the
  same render; each writes onto what the one before has written. The result is the state
  the next render sees.
\<close>

definition commit :: "(real \<Rightarrow> string) \<Rightarrow> view option \<Rightarrow> view \<Rightarrow> modal_state" where
  "commit toString prev cur =
     (let c = v_state cur;
          ordr = map_option snd (v_order cur);
          s1 = (if dep_changed prev cur order_dep then order_changed ordr c else c);
          s2 = (if dep_changed prev cur v_isOpen then open_changed (v_isOpen cur) s1 else s1)
      in if dep_changed prev cur autofill_deps
         then autofill toString ordr (v_currentPrice cur) c s2
         else s2)"

section \<open>Predicates on executions\<close>

text \<open>
  A stretch of an execution in which only time passes and timers fire, and the time
  that passes in it.
\<close>

fun elapsed :: "event list \<Rightarrow> nat" where
  "elapsed [] = 0"
| "elapsed (Advance d # es) = d + elapsed es"
| "elapsed (_ # es) = elapsed es"

fun timer_events :: "event list \<Rightarrow> bool" where
  "timer_events [] = True"
| "timer_events (Advance d # es) = timer_events es"
| "timer_events (FireTimer i # es) = timer_events es"
| "timer_events (_ # es) = False"

text \<open>No pending timer removes the order \<open>oid\<close> before the time \<open>T\<close>.\<close>

definition not_due_before :: "nat \<Rightarrow> string \<Rightarrow> hook_state \<Rightarrow> bool" where
  "not_due_before T oid s = list_all (\<lambda>t. snd t = oid \<longrightarrow> T \<le> fst t) (timers s)"

text \<open>
  The in-flight guard's invariant: at most one call of \<^verbatim>\<open>fetchOrders\<close> is suspended, and
  the flag is set exactly while one is.
\<close>

definition one_in_flight :: "hook_state \<Rightarrow> bool" where
  "one_in_flight s = (length (inflight s) \<le> 1 \<and> (isLoadingRef s = (inflight s \<noteq> [])))"

text \<open>
  What the list needs of its surroundings to stay free of duplicate ids: a fetched page
  has pairwise distinct ids; a page that is appended brings no id the list already has;
  an update does not carry another id than the one it is addressed to.
\<close>

fun keeps_ids :: "hook_state \<Rightarrow> event \<Rightarrow> bool" where
  "keeps_ids s (OrdersResolved (RespData d)) =
     (case inflight s of
        AwaitOrders pageNum reset # _ \<Rightarrow>
          distinct (map order_id (resp_orders d)) \<and>
          (reset \<or> pageNum = 1 \<or>
           set (map order_id (resp_orders d)) \<inter> set (map order_id (orders s)) = {})
      | _ \<Rightarrow> True)"
| "keeps_ids s (UpdateOrder oid updates) = (p_id updates = None \<or> p_id updates = Some oid)"
| "keeps_ids s _ = True"

fun well_fed :: "hook_state \<Rightarrow> event list \<Rightarrow> bool" where
  "well_fed s [] = True"
| "well_fed s (e # es) = (keeps_ids s e \<and> well_fed (step e s) es)"

section \<open>Sample data\<close>

text \<open>Concrete users, orders, caches and drafts, at which the theorems below are run.\<close>

definition alice :: user_ref where
  "alice = \<lparr>ref_id = ''u1'', discordName = ''alice'', inGameName = Some ''Alys''\<rparr>"

definition bob :: user_ref where
  "bob = \<lparr>ref_id = ''u2'', discordName = ''bob'', inGameName = None\<rparr>"

definition order_a :: order where
  "order_a = \<lparr>order_id = ''a'', itemName = ''salmon'', tier = 3, pricePerUnit = 8,
               amount = 40, orderType = ''SELL'', status = ''OPEN'',
               createdAt = ''2025-01-01T00:00:00Z'', fulfilledAt = None,
               creator = alice, claimer = None\<rparr>"

definition order_b :: order where
  "order_b = \<lparr>order_id = ''b'', itemName = ''trout'', tier = 5, pricePerUnit = 2,
               amount = 7, orderType = ''BUY'', status = ''IN_PROGRESS'',
               createdAt = ''2025-01-02T00:00:00Z'', fulfilledAt = None,
               creator = alice, claimer = Some bob\<rparr>"

definition cache_ab :: hook_state where
  "cache_ab = init_state\<lparr>orders := [order_a, order_b], loading := False,
                          sessionStatus := ''authenticated'', sessionUserId := Some ''u1''\<rparr>"

definition order_c :: order where
  "order_c = \<lparr>order_id = ''c'', itemName = ''carp'', tier = 1, pricePerUnit = 0.5,
               amount = 100, orderType = ''BUY'', status = ''OPEN'',
               createdAt = ''2025-01-03T00:00:00Z'', fulfilledAt = None,
               creator = bob, claimer = None\<rparr>"

definition me :: user where
  "me = \<lparr>user_id = ''u1'', discordId = ''1001'', user_discordName = ''alice'',
          user_inGameName = Some ''Alys''\<rparr>"

definition signed_in :: event where
  "signed_in = SessionChange ''authenticated'' (Some ''u1'')"

definition page_one :: orders_response where
  "page_one = \<lparr>resp_orders = [order_a, order_b], resp_totalCount = 3, resp_hasMore = True,
                resp_page = 1, resp_limit = 50, resp_currentUser = Some me\<rparr>"

definition page_two :: orders_response where
  "page_two = \<lparr>resp_orders = [order_c], resp_totalCount = 3, resp_hasMore = False,
                resp_page = 2, resp_limit = 50, resp_currentUser = Some me\<rparr>"

text \<open>
  The second page as the server sends it after a new order has pushed \<open>order_b\<close> from
  the first page onto the second.
\<close>

definition page_two_shifted :: orders_response where
  "page_two_shifted = \<lparr>resp_orders = [order_b, order_c], resp_totalCount = 4,
                        resp_hasMore = False, resp_page = 2, resp_limit = 50,
                        resp_currentUser = Some me\<rparr>"

definition claimed_a :: notification where
  "claimed_a = \<lparr>orderId = ''a'', notificationType = ''order_claimed'',
                 orderDetails = \<lparr>details_orderType = ''SELL''\<rparr>,
                 detail_claimer = Some \<lparr>claimer_id = ''u2'', claimer_name = None,
                                        claimer_inGameName = Some ''Bobby''\<rparr>\<rparr>"

definition claimed_a_by_bob :: notification where
  "claimed_a_by_bob = \<lparr>orderId = ''a'', notificationType = ''order_claimed'',
                        orderDetails = \<lparr>details_orderType = ''BUY''\<rparr>,
                        detail_claimer = Some \<lparr>claimer_id = ''u2'', claimer_name = Some ''bob'',
                                               claimer_inGameName = None\<rparr>\<rparr>"

definition claimed_b_nobody :: notification where
  "claimed_b_nobody = \<lparr>orderId = ''b'', notificationType = ''order_claimed'',
                        orderDetails = \<lparr>details_orderType = ''BUY''\<rparr>,
                        detail_claimer = None\<rparr>"

definition completed_a :: notification where
  "completed_a = \<lparr>orderId = ''a'', notificationType = ''order_completed'',
                   orderDetails = \<lparr>details_orderType = ''SELL''\<rparr>,
                   detail_claimer = None\<rparr>"

definition archived_a :: notification where
  "archived_a = \<lparr>orderId = ''a'', notificationType = ''order_archived'',
                  orderDetails = \<lparr>details_orderType = ''SELL''\<rparr>,
                  detail_claimer = None\<rparr>"

text \<open>
  How the numbers of the examples are written and read; the theorems on the form hold for
  every way of writing and reading numbers.
\<close>

definition as_text :: "real \<Rightarrow> string" where
  "as_text x =
     (if x = 3 then ''3'' else if x = 5 then ''5'' else if x = 6 then ''6''
      else if x = 12.5 then ''12.5'' else if x = 20 then ''20''
      else if x = 99 then ''99'' else ''?'')"

definition read_price :: "string \<Rightarrow> real option" where
  "read_price v =
     (if v = ''9.99'' then Some 9.99 else if v = ''7'' then Some 7 else None)"

text \<open>
  The dialog mounted open on \<open>order_a\<close>: the first render sees the initial state, the
  second the draft of \<open>order_a\<close>.
\<close>

definition mount_a :: view where
  "mount_a = \<lparr>v_isOpen = True, v_order = Some (1, order_a), v_pricingData = 0,
               v_currentPrice = None, v_state = modal_init\<rparr>"

definition draft_a :: modal_state where
  "draft_a = order_changed (Some order_a) modal_init"

text \<open>
  The dialog mounted closed with \<open>order_a\<close> already selected, and then opened with the
  same order object: the two effects run on mount, the one on \<^verbatim>\<open>[isOpen]\<close> last, and
  the one on \<^verbatim>\<open>[order]\<close> does not run again when the dialog opens.
\<close>

definition mount_closed_a :: view where
  "mount_closed_a = \<lparr>v_isOpen = False, v_order = Some (1, order_a), v_pricingData = 0,
                      v_currentPrice = Some 8, v_state = modal_init\<rparr>"

definition opened_late_a :: modal_state where
  "opened_late_a = open_changed True (open_changed False (order_changed (Some order_a) modal_init))"

text \<open>
  The draft of \<open>order_a\<close> after the tier was changed to 5 and the price of that tier,
  12.5, filled in; the render that shows it; and the next render, for which the parent
  has put \<open>order_b\<close>, another object, into the open dialog, the pricing hook giving 99
  for the item of \<open>order_b\<close> at the tier still rendered. The last is the render after
  that.
\<close>

definition filled_a :: modal_state where
  "filled_a = autofill as_text (Some order_a) (Some 12.5) (handleTierChange 5 draft_a)
                (handleTierChange 5 draft_a)"

definition shows_filled_a :: view where
  "shows_filled_a = \<lparr>v_isOpen = True, v_order = Some (1, order_a), v_pricingData = 0,
                      v_currentPrice = Some 12.5, v_state = filled_a\<rparr>"

definition loads_b :: view where
  "loads_b = \<lparr>v_isOpen = True, v_order = Some (2, order_b), v_pricingData = 0,
               v_currentPrice = Some 99, v_state = filled_a\<rparr>"

definition shows_b :: view where
  "shows_b = \<lparr>v_isOpen = True, v_order = Some (2, order_b), v_pricingData = 0,
               v_currentPrice = Some 99, v_state = commit as_text (Some shows_filled_a) loads_b\<rparr>"

section \<open>Properties of the order-list cache\<close>

lemma override_twice: "override (override x p) p = override x p"
  by (cases p) simp_all

lemma merge_order_twice: "merge_order (merge_order ord P) P = merge_order ord P"
  by (simp add: merge_order_def override_twice)

lemma orders_cache_ab: "orders cache_ab = [order_a, order_b]"
  by (simp add: cache_ab_def)

lemma ids_ab: "order_id order_a = ''a''" "order_id order_b = ''b''"
  by (simp_all add: order_a_def order_b_def)

subsection \<open>Idempotent merge\<close>

text \<open>
  Claim C4. For every list state, every id and every partial-fields record \<open>P\<close>, applying
  \<open>updateOrder oid P\<close> twice in succession gives exactly the state that applying it once
  gives. If no entry has the id, the state is unchanged; the list keeps its length, and
  every entry whose id differs is left as it was, at its place.
\<close>

theorem updateOrder_idempotent:
  "updateOrder oid P (updateOrder oid P s) = updateOrder oid P s
   \<and> (oid \<notin> order_id ` set (orders s) \<longrightarrow> updateOrder oid P s = s)
   \<and> length (orders (updateOrder oid P s)) = length (orders s)
   \<and> (\<forall>i < length (orders s). order_id (orders s ! i) \<noteq> oid \<longrightarrow>
         orders (updateOrder oid P s) ! i = orders s ! i)"
proof -
  let ?f = "\<lambda>ord. if order_id ord = oid then merge_order ord P else ord"
  have twice: "map ?f (map ?f (orders s)) = map ?f (orders s)"
    by (simp add: merge_order_twice)
  have absent: "oid \<notin> order_id ` set (orders s) \<Longrightarrow> map ?f (orders s) = orders s"
    by (rule map_idI) auto
  show ?thesis
    using twice absent by (auto simp: updateOrder_def)
qed

theorem updateOrder_idempotent_witness:
  "updateOrder ''a'' (no_updates\<lparr>p_status := Some ''IN_PROGRESS'', p_id := Some ''c''\<rparr>)
     (updateOrder ''a'' (no_updates\<lparr>p_status := Some ''IN_PROGRESS'', p_id := Some ''c''\<rparr>) cache_ab)
   = updateOrder ''a'' (no_updates\<lparr>p_status := Some ''IN_PROGRESS'', p_id := Some ''c''\<rparr>) cache_ab
   \<and> ''zz'' \<notin> order_id ` set (orders cache_ab)
   \<and> updateOrder ''zz'' (no_updates\<lparr>p_status := Some ''IN_PROGRESS''\<rparr>) cache_ab = cache_ab
   \<and> (1::nat) < length (orders cache_ab)
   \<and> order_id (orders cache_ab ! 1) \<noteq> ''a''
   \<and> orders (updateOrder ''a''
         (no_updates\<lparr>p_status := Some ''IN_PROGRESS'', p_id := Some ''c''\<rparr>) cache_ab) ! 1
       = order_b"
  using updateOrder_idempotent
          [of "''a''" "no_updates\<lparr>p_status := Some ''IN_PROGRESS'', p_id := Some ''c''\<rparr>" cache_ab]
        updateOrder_idempotent
          [of "''zz''" "no_updates\<lparr>p_status := Some ''IN_PROGRESS''\<rparr>" cache_ab]
  by (simp add: orders_cache_ab ids_ab)

subsection \<open>Notifications\<close>

text \<open>
  Claim C7. An \<^verbatim>\<open>order_claimed\<close> notification sets, on the cached order it targets, the
  claimer of the payload: its id, its name as \<^verbatim>\<open>discordName\<close> (\<^verbatim>\<open>Unknown\<close> when the name
  is missing or empty) and its in-game name, or \<^verbatim>\<open>null\<close> when the payload has no claimer;
  and the status \<^verbatim>\<open>READY_TO_TRADE\<close> when the payload's order type is \<^verbatim>\<open>SELL\<close> and
  \<^verbatim>\<open>IN_PROGRESS\<close> otherwise. Every other entry and the rest of the state stay as they
  are. A notification whose kind is none of the four recognized ones leaves the whole
  state unchanged.
\<close>

theorem order_claimed_and_unknown_kinds:
  "(notificationType n = ''order_claimed'' \<longrightarrow>
      handleOrderStatusUpdate n s =
        s\<lparr>orders :=
            map (\<lambda>ord. if order_id ord = orderId n
                        then ord\<lparr>status := (if details_orderType (orderDetails n) = ''SELL''
                                            then ''READY_TO_TRADE'' else ''IN_PROGRESS''),
                                 claimer :=
                                   (case detail_claimer n of
                                      None \<Rightarrow> None
                                    | Some pc \<Rightarrow>
                                        Some \<lparr>ref_id = claimer_id pc,
                                              discordName =
                                                (case claimer_name pc of
                                                   None \<Rightarrow> ''Unknown''
                                                 | Some nm \<Rightarrow>
                                                     if nm = [] then ''Unknown'' else nm),
                                              inGameName = claimer_inGameName pc\<rparr>)\<rparr>
                        else ord)
                (orders s)\<rparr>)
   \<and> (\<forall>pc nm i. notificationType n = ''order_claimed'' \<and> detail_claimer n = Some pc \<and>
        claimer_name pc = Some nm \<and> nm \<noteq> [] \<and>
        i < length (orders s) \<and> order_id (orders s ! i) = orderId n \<longrightarrow>
        claimer (orders (handleOrderStatusUpdate n s) ! i)
          = Some \<lparr>ref_id = claimer_id pc, discordName = nm,
                  inGameName = claimer_inGameName pc\<rparr>
        \<and> status (orders (handleOrderStatusUpdate n s) ! i)
          = (if details_orderType (orderDetails n) = ''SELL''
             then ''READY_TO_TRADE'' else ''IN_PROGRESS'')
        \<and> order_id (orders (handleOrderStatusUpdate n s) ! i) = orderId n)
   \<and> (notificationType n \<noteq> ''order_claimed'' \<and> notificationType n \<noteq> ''order_ready'' \<and>
      notificationType n \<noteq> ''order_completed'' \<and> notificationType n \<noteq> ''order_cancelled'' \<longrightarrow>
      handleOrderStatusUpdate n s = s)"
proof -
  have claimed: "handleOrderStatusUpdate n s =
        s\<lparr>orders :=
            map (\<lambda>ord. if order_id ord = orderId n
                        then ord\<lparr>status := (if details_orderType (orderDetails n) = ''SELL''
                                            then ''READY_TO_TRADE'' else ''IN_PROGRESS''),
                                 claimer :=
                                   (case detail_claimer n of
                                      None \<Rightarrow> None
                                    | Some pc \<Rightarrow>
                                        Some \<lparr>ref_id = claimer_id pc,
                                              discordName =
                                                (case claimer_name pc of
                                                   None \<Rightarrow> ''Unknown''
                                                 | Some nm \<Rightarrow>
                                                     if nm = [] then ''Unknown'' else nm),
                                              inGameName = claimer_inGameName pc\<rparr>)\<rparr>
                        else ord)
                (orders s)\<rparr>"
    if "notificationType n = ''order_claimed''"
    using that
    by (simp add: handleOrderStatusUpdate_def apply_update_def updateOrder_def merge_order_def
        keys_length_def no_updates_def present_def claimer_of_def)
  have named: "claimer (orders (handleOrderStatusUpdate n s) ! i)
          = Some \<lparr>ref_id = claimer_id pc, discordName = nm,
                  inGameName = claimer_inGameName pc\<rparr>
        \<and> status (orders (handleOrderStatusUpdate n s) ! i)
          = (if details_orderType (orderDetails n) = ''SELL''
             then ''READY_TO_TRADE'' else ''IN_PROGRESS'')
        \<and> order_id (orders (handleOrderStatusUpdate n s) ! i) = orderId n"
    if "notificationType n = ''order_claimed''" "detail_claimer n = Some pc"
       "claimer_name pc = Some nm" "nm \<noteq> []"
       "i < length (orders s)" "order_id (orders s ! i) = orderId n"
    for pc nm i
    using that by (simp add: claimed)
  have unknown: "handleOrderStatusUpdate n s = s"
    if "notificationType n \<noteq> ''order_claimed''" "notificationType n \<noteq> ''order_ready''"
       "notificationType n \<noteq> ''order_completed''" "notificationType n \<noteq> ''order_cancelled''"
    using that
    by (simp add: handleOrderStatusUpdate_def apply_update_def keys_length_def no_updates_def
        present_def)
  show ?thesis
    using claimed named unknown by blast
qed

theorem order_claimed_and_unknown_kinds_witness:
  "notificationType claimed_a_by_bob = ''order_claimed''
   \<and> orders (handleOrderStatusUpdate claimed_a_by_bob cache_ab) =
       [order_a\<lparr>status := ''IN_PROGRESS'',
                claimer := Some \<lparr>ref_id = ''u2'', discordName = ''bob'', inGameName = None\<rparr>\<rparr>,
        order_b]
   \<and> (0::nat) < length (orders cache_ab)
   \<and> order_id (orders cache_ab ! 0) = orderId claimed_a_by_bob
   \<and> claimer (orders (handleOrderStatusUpdate claimed_a_by_bob cache_ab) ! 0)
       = Some \<lparr>ref_id = ''u2'', discordName = ''bob'', inGameName = None\<rparr>
   \<and> orders (handleOrderStatusUpdate claimed_a cache_ab) =
       [order_a\<lparr>status := ''READY_TO_TRADE'',
                claimer := Some \<lparr>ref_id = ''u2'', discordName = ''Unknown'',
                                 inGameName = Some ''Bobby''\<rparr>\<rparr>,
        order_b]
   \<and> orders (handleOrderStatusUpdate claimed_b_nobody cache_ab) =
       [order_a, order_b\<lparr>status := ''IN_PROGRESS'', claimer := None\<rparr>]
   \<and> notificationType archived_a = ''order_archived''
   \<and> handleOrderStatusUpdate archived_a cache_ab = cache_ab"
  using order_claimed_and_unknown_kinds [of claimed_a_by_bob cache_ab]
        order_claimed_and_unknown_kinds [of claimed_a cache_ab]
        order_claimed_and_unknown_kinds [of claimed_b_nobody cache_ab]
        order_claimed_and_unknown_kinds [of archived_a cache_ab]
  by (simp add: claimed_a_by_bob_def claimed_a_def claimed_b_nobody_def archived_a_def
      orders_cache_ab ids_ab)

text \<open>
  Claim C10. For an \<^verbatim>\<open>order_claimed\<close> notification without a claimer in its payload,
  the targeted order's claimer becomes \<^verbatim>\<open>null\<close>, whatever claimer it had; with a claimer
  that has no name, the stored \<^verbatim>\<open>discordName\<close> is \<^verbatim>\<open>Unknown\<close>, the id and the in-game
  name being the payload's.
\<close>

theorem order_claimed_claimer:
  assumes "notificationType n = ''order_claimed''"
    and "i < length (orders s)"
    and "order_id (orders s ! i) = orderId n"
  shows "length (orders (handleOrderStatusUpdate n s)) = length (orders s)
   \<and> (detail_claimer n = None \<longrightarrow>
        claimer (orders (handleOrderStatusUpdate n s) ! i) = None)
   \<and> (\<forall>pc. detail_claimer n = Some pc \<and> claimer_name pc = None \<longrightarrow>
        claimer (orders (handleOrderStatusUpdate n s) ! i) =
          Some \<lparr>ref_id = claimer_id pc, discordName = ''Unknown'',
                inGameName = claimer_inGameName pc\<rparr>)"
  using assms
  by (simp add: handleOrderStatusUpdate_def apply_update_def updateOrder_def merge_order_def keys_length_def
      no_updates_def present_def claimer_of_def)

theorem order_claimed_claimer_witness:
  "notificationType claimed_b_nobody = ''order_claimed''
   \<and> (1::nat) < length (orders cache_ab)
   \<and> order_id (orders cache_ab ! 1) = orderId claimed_b_nobody
   \<and> detail_claimer claimed_b_nobody = None
   \<and> claimer (orders cache_ab ! 1) = Some bob
   \<and> claimer (orders (handleOrderStatusUpdate claimed_b_nobody cache_ab) ! 1) = None
   \<and> order_id (orders cache_ab ! 0) = orderId claimed_a
   \<and> claimer_name (the (detail_claimer claimed_a)) = None
   \<and> claimer (orders (handleOrderStatusUpdate claimed_a cache_ab) ! 0) =
       Some \<lparr>ref_id = ''u2'', discordName = ''Unknown'', inGameName = Some ''Bobby''\<rparr>"
  using order_claimed_claimer [of claimed_b_nobody 1 cache_ab]
        order_claimed_claimer [of claimed_a 0 cache_ab]
  by (simp add: claimed_a_def claimed_b_nobody_def orders_cache_ab ids_ab order_b_def)

lemma fire_timer_keeps:
  assumes "not_due_before T oid s" and "clock s < T" and "ord \<in> set (orders s)"
    and "order_id ord = oid"
  shows "ord \<in> set (orders (fire_timer i s)) \<and> not_due_before T oid (fire_timer i s)
         \<and> clock (fire_timer i s) = clock s"
proof (cases "i < length (timers s) \<and> fst (timers s ! i) \<le> clock s")
  case False
  then show ?thesis using assms by (auto simp: fire_timer_def)
next
  case True
  then have mem: "timers s ! i \<in> set (timers s)" by simp
  have "snd (timers s ! i) \<noteq> oid"
  proof
    assume "snd (timers s ! i) = oid"
    with assms(1) mem have "T \<le> fst (timers s ! i)"
      by (auto simp: not_due_before_def list_all_iff)
    with True assms(2) show False by simp
  qed
  moreover have "list_all (\<lambda>t. snd t = oid \<longrightarrow> T \<le> fst t)
                   (take i (timers s) @ drop (Suc i) (timers s))"
    using assms(1)
    by (auto simp: not_due_before_def list_all_iff dest: in_set_takeD in_set_dropD)
  ultimately show ?thesis
    using True assms by (auto simp: fire_timer_def removeOrder_def not_due_before_def)
qed

lemma timer_run_keeps:
  "timer_events es \<Longrightarrow> not_due_before T oid s \<Longrightarrow> clock s + elapsed es < T \<Longrightarrow>
   ord \<in> set (orders s) \<Longrightarrow> order_id ord = oid \<Longrightarrow> ord \<in> set (orders (run s es))"
proof (induction es arbitrary: s)
  case Nil
  then show ?case by simp
next
  case (Cons e es)
  show ?case
  proof (cases e)
    case (Advance d)
    have "ord \<in> set (orders (run (s\<lparr>clock := clock s + d\<rparr>) es))"
      using Cons.prems Advance
      by (intro Cons.IH) (auto simp: not_due_before_def)
    then show ?thesis using Advance by simp
  next
    case (FireTimer i)
    have k: "ord \<in> set (orders (fire_timer i s)) \<and> not_due_before T oid (fire_timer i s)
         \<and> clock (fire_timer i s) = clock s"
      using Cons.prems FireTimer by (intro fire_timer_keeps) auto
    have "ord \<in> set (orders (run (fire_timer i s) es))"
      using Cons.prems FireTimer k by (intro Cons.IH) auto
    then show ?thesis using FireTimer by simp
  qed (use Cons.prems in auto)
qed

lemma completed_now:
  assumes "notificationType n = ''order_completed''"
  shows "handleOrderStatusUpdate n s =
           s\<lparr>orders := map (\<lambda>ord. if order_id ord = orderId n
                                   then ord\<lparr>status := ''FULFILLED''\<rparr> else ord) (orders s),
             timers := timers s @ [(clock s + 1000, orderId n)]\<rparr>"
  using assms
  by (simp add: handleOrderStatusUpdate_def apply_update_def updateOrder_def merge_order_def no_updates_def
      setTimeout_def)

text \<open>
  Claim C3. An \<^verbatim>\<open>order_completed\<close> notification for a cached order sets its status to
  \<^verbatim>\<open>FULFILLED\<close> at once, the order staying in the list at its place, and hands
  \<^verbatim>\<open>setTimeout\<close> one callback, due 1000 ms later, that removes the order. Fired less than
  1000 ms after the notification the callback does not run; fired from 1000 ms on it is
  \<open>removeOrder\<close>. While less than 1000 ms pass and only timers fire, the fulfilled order
  is still in the list, provided no timer set earlier for the same order is due before.
\<close>

theorem order_completed_grace:
  assumes "notificationType n = ''order_completed''"
    and "i < length (orders s)"
    and "order_id (orders s ! i) = orderId n"
  shows "orders (handleOrderStatusUpdate n s) =
           map (\<lambda>ord. if order_id ord = orderId n then ord\<lparr>status := ''FULFILLED''\<rparr> else ord)
             (orders s)
   \<and> orders (handleOrderStatusUpdate n s) ! i = (orders s ! i)\<lparr>status := ''FULFILLED''\<rparr>
   \<and> timers (handleOrderStatusUpdate n s) = timers s @ [(clock s + 1000, orderId n)]
   \<and> (\<forall>d < 1000.
        fire_timer (length (timers s)) (step (Advance d) (handleOrderStatusUpdate n s))
          = step (Advance d) (handleOrderStatusUpdate n s))
   \<and> (\<forall>d \<ge> 1000.
        fire_timer (length (timers s)) (step (Advance d) (handleOrderStatusUpdate n s))
          = removeOrder (orderId n)
              ((step (Advance d) (handleOrderStatusUpdate n s))\<lparr>timers := timers s\<rparr>))
   \<and> (\<forall>es. timer_events es \<and> elapsed es < 1000 \<and> not_due_before (clock s + 1000) (orderId n) s
          \<longrightarrow> (orders s ! i)\<lparr>status := ''FULFILLED''\<rparr>
                \<in> set (orders (run (handleOrderStatusUpdate n s) es)))"
proof -
  let ?s' = "handleOrderStatusUpdate n s"
  let ?ord = "(orders s ! i)\<lparr>status := ''FULFILLED''\<rparr>"
  note now = completed_now [OF assms(1), of s]
  have at_i: "orders ?s' ! i = ?ord"
    using assms(2,3) by (simp add: now)
  have fire_early: "\<forall>d < 1000. fire_timer (length (timers s)) (step (Advance d) ?s')
                      = step (Advance d) ?s'"
    by (simp add: now fire_timer_def)
  have fire_due: "\<forall>d \<ge> 1000. fire_timer (length (timers s)) (step (Advance d) ?s')
          = removeOrder (orderId n) ((step (Advance d) ?s')\<lparr>timers := timers s\<rparr>)"
    by (simp add: now fire_timer_def removeOrder_def)
  have stays: "(orders s ! i)\<lparr>status := ''FULFILLED''\<rparr> \<in> set (orders (run ?s' es))"
    if "timer_events es" "elapsed es < 1000" "not_due_before (clock s + 1000) (orderId n) s"
    for es
  proof (rule timer_run_keeps [where T = "clock s + 1000" and oid = "orderId n"])
    show "timer_events es" by (rule that)
    show "not_due_before (clock s + 1000) (orderId n) ?s'"
      using that(3) by (simp add: now not_due_before_def)
    show "clock ?s' + elapsed es < clock s + 1000"
      using that(2) by (simp add: now)
    have "i < length (orders ?s')"
      using assms(2) by (simp add: now)
    then have "orders ?s' ! i \<in> set (orders ?s')"
      by (rule nth_mem)
    then show "?ord \<in> set (orders ?s')"
      by (simp only: at_i)
    show "order_id ?ord = orderId n" using assms(3) by simp
  qed
  show ?thesis
    using at_i fire_early fire_due stays by (simp add: now)
qed

theorem order_completed_grace_witness:
  "notificationType completed_a = ''order_completed''
   \<and> (0::nat) < length (orders cache_ab)
   \<and> order_id (orders cache_ab ! 0) = orderId completed_a
   \<and> orders (handleOrderStatusUpdate completed_a cache_ab)
       = [order_a\<lparr>status := ''FULFILLED''\<rparr>, order_b]
   \<and> timers (handleOrderStatusUpdate completed_a cache_ab) = [(1000, ''a'')]
   \<and> orders (run cache_ab [Notify completed_a, Advance 999, FireTimer 0])
       = [order_a\<lparr>status := ''FULFILLED''\<rparr>, order_b]
   \<and> orders (run cache_ab [Notify completed_a, Advance 1000, FireTimer 0]) = [order_b]
   \<and> timer_events [Advance 400, FireTimer 0, Advance 599, FireTimer 0]
   \<and> elapsed [Advance 400, FireTimer 0, Advance 599, FireTimer 0] < 1000
   \<and> not_due_before (clock cache_ab + 1000) (orderId completed_a) cache_ab
   \<and> order_a\<lparr>status := ''FULFILLED''\<rparr>
       \<in> set (orders (run (handleOrderStatusUpdate completed_a cache_ab)
                        [Advance 400, FireTimer 0, Advance 599, FireTimer 0]))"
  using order_completed_grace [of completed_a 0 cache_ab]
  by (simp add: completed_a_def orders_cache_ab ids_ab cache_ab_def init_state_def
      handleOrderStatusUpdate_def apply_update_def updateOrder_def merge_order_def no_updates_def
      setTimeout_def fire_timer_def removeOrder_def not_due_before_def)

subsection \<open>The in-flight guard\<close>

lemma fetchOrders_in_flight: "one_in_flight s \<Longrightarrow> one_in_flight (fetchOrders p r s)"
  by (auto simp: one_in_flight_def fetchOrders_def)

lemma in_flight_ref_only:
  "one_in_flight (s\<lparr>hasInitializedRef := b\<rparr>) = one_in_flight s"
  by (simp add: one_in_flight_def)

lemma orders_resolved_in_flight: "one_in_flight s \<Longrightarrow> one_in_flight (orders_resolved out s)"
  by (auto simp: orders_resolved_def one_in_flight_def finish_def console_error_def
      orders_arrived_def Let_def
      split: list.splits pending.splits fetch_outcome.splits option.splits)

lemma user_resolved_in_flight: "one_in_flight s \<Longrightarrow> one_in_flight (user_resolved out s)"
  by (auto simp: user_resolved_def one_in_flight_def finish_def console_error_def
      split: list.splits pending.splits user_outcome.splits)

lemma handle_in_flight:
  "one_in_flight (handleOrderStatusUpdate n s) = one_in_flight s"
  by (simp add: one_in_flight_def handleOrderStatusUpdate_def apply_update_def updateOrder_def setTimeout_def
      Let_def)

lemma step_in_flight: "one_in_flight s \<Longrightarrow> one_in_flight (step e s)"
proof (cases e)
  case InitialLoad
  assume "one_in_flight s"
  then show ?thesis
    using InitialLoad fetchOrders_in_flight [of "s\<lparr>hasInitializedRef := True\<rparr>" 1 True]
    by (simp add: initial_load_def in_flight_ref_only)
next
  case Refetch
  assume "one_in_flight s"
  then show ?thesis
    using Refetch fetchOrders_in_flight [of "s\<lparr>hasInitializedRef := False\<rparr>" 1 True]
    by (simp add: refetch_def in_flight_ref_only)
next
  case (RefreshSession b)
  assume "one_in_flight s"
  then show ?thesis
    using RefreshSession fetchOrders_in_flight [of "s\<lparr>hasInitializedRef := False\<rparr>" 1 True]
    by (simp add: refreshSession_def refetch_def in_flight_ref_only)
       (simp add: one_in_flight_def console_error_def)
next
  case (FireTimer i)
  assume "one_in_flight s"
  then show ?thesis
    using FireTimer by (simp add: fire_timer_def removeOrder_def one_in_flight_def)
qed (simp_all add: fetchOrders_in_flight orders_resolved_in_flight user_resolved_in_flight
      handle_in_flight loadMore_def,
     simp_all add: one_in_flight_def updateOrder_def removeOrder_def)

lemma run_in_flight: "one_in_flight s \<Longrightarrow> one_in_flight (run s es)"
  by (induction es arbitrary: s) (simp_all add: step_in_flight)

lemma init_in_flight: "one_in_flight init_state"
  by (simp add: one_in_flight_def init_state_def)

text \<open>
  Claim C8. In every execution from the initial state at most one call of \<^verbatim>\<open>fetchOrders\<close>
  is in flight, and the in-flight flag is set exactly while one is. A call made while the
  flag is set returns the state it was given: nothing is written, no request is sent and
  no call is added to the suspended ones, so nothing is left to run later. \<^verbatim>\<open>loadMore\<close>
  and \<^verbatim>\<open>refetch\<close> do nothing either while the flag is set.
\<close>

theorem at_most_one_load_in_flight:
  "length (inflight (run init_state es)) \<le> 1
   \<and> isLoadingRef (run init_state es) = (inflight (run init_state es) \<noteq> [])
   \<and> (isLoadingRef s \<longrightarrow>
        fetchOrders pageNum reset s = s
        \<and> requests (fetchOrders pageNum reset s) = requests s
        \<and> inflight (fetchOrders pageNum reset s) = inflight s
        \<and> loadMore s = s
        \<and> refetch s = s)"
  using run_in_flight [OF init_in_flight, of es]
  by (simp add: one_in_flight_def fetchOrders_def loadMore_def refetch_def)

theorem at_most_one_load_in_flight_witness:
  "isLoadingRef (run init_state [signed_in, FetchOrders 1 True])
   \<and> run init_state [signed_in, FetchOrders 1 True, FetchOrders 1 True]
       = run init_state [signed_in, FetchOrders 1 True]
   \<and> requests (run init_state [signed_in, FetchOrders 1 True, FetchOrders 1 True])
       = [GetOrders 1]
   \<and> inflight (run init_state [signed_in, FetchOrders 1 True, FetchOrders 1 True])
       = [AwaitOrders 1 True]"
  using at_most_one_load_in_flight
          [of "[signed_in, FetchOrders 1 True, FetchOrders 1 True]"
              "run init_state [signed_in, FetchOrders 1 True]" 1 True]
  by (simp add: signed_in_def init_state_def fetchOrders_def no_session_user_def)

subsection \<open>A failing fetch\<close>

text \<open>
  The fetch of the empty cache that ends with a response that is not ok: the request
  was sent, the call is over, and the console has no line.
\<close>

theorem not_ok_response_not_logged_counterexample:
  "requests (run init_state [signed_in, FetchOrders 1 True, OrdersResolved RespNotOk])
     = [GetOrders 1]
   \<and> inflight (run init_state [signed_in, FetchOrders 1 True, OrdersResolved RespNotOk]) = []
   \<and> console (run init_state [signed_in, FetchOrders 1 True]) = []
   \<and> console (run init_state [signed_in, FetchOrders 1 True, OrdersResolved RespNotOk]) = []"
  by (simp add: signed_in_def init_state_def no_session_user_def fetchOrders_def
      orders_resolved_def finish_def)

text \<open>
  Claim C9, amended. A call of \<^verbatim>\<open>fetchOrders\<close> that passes its guard and whose fetch fails
  (thrown error, response not ok, or a body that does not parse) leaves \<^verbatim>\<open>orders\<close>,
  \<^verbatim>\<open>page\<close>, \<^verbatim>\<open>totalCount\<close> and \<^verbatim>\<open>hasMore\<close> as they were before the call, clears the
  loading flag and the in-flight flag, and writes nothing else to the state but the request
  sent and the console: a thrown error is logged with one line, a response that is not ok
  is not logged at all. The last conjunct is the same for a call resumed in any state, so
  with other events in between.
\<close>

theorem failed_fetch_keeps_the_cache:
  assumes "\<not> no_session_user (run init_state es)"
    and "\<not> isLoadingRef (run init_state es)"
    and "out = FetchThrew \<or> out = RespNotOk \<or> out = JsonThrew"
  shows "orders (orders_resolved out (fetchOrders pageNum reset (run init_state es)))
           = orders (run init_state es)
   \<and> page (orders_resolved out (fetchOrders pageNum reset (run init_state es)))
           = page (run init_state es)
   \<and> totalCount (orders_resolved out (fetchOrders pageNum reset (run init_state es)))
           = totalCount (run init_state es)
   \<and> hasMore (orders_resolved out (fetchOrders pageNum reset (run init_state es)))
           = hasMore (run init_state es)
   \<and> loading (orders_resolved out (fetchOrders pageNum reset (run init_state es))) = False
   \<and> isLoadingRef (orders_resolved out (fetchOrders pageNum reset (run init_state es))) = False
   \<and> inflight (orders_resolved out (fetchOrders pageNum reset (run init_state es))) = []
   \<and> console (orders_resolved out (fetchOrders pageNum reset (run init_state es)))
           = console (run init_state es) @
               (if out = RespNotOk then [] else [''Error fetching orders:''])
   \<and> orders_resolved out (fetchOrders pageNum reset (run init_state es))
         = (run init_state es)
             \<lparr>loading := False,
              requests := requests (run init_state es) @ [GetOrders pageNum],
              console := console (run init_state es) @
                 (if out = RespNotOk then [] else [''Error fetching orders:''])\<rparr>
   \<and> (\<forall>t rest. inflight t = AwaitOrders pageNum reset # rest \<longrightarrow>
         orders_resolved out t
         = t\<lparr>loading := False, isLoadingRef := False, inflight := rest,
             console := console t @
                 (if out = RespNotOk then [] else [''Error fetching orders:''])\<rparr>)"
proof -
  let ?s = "run init_state es"
  have "one_in_flight ?s"
    by (rule run_in_flight [OF init_in_flight])
  with assms(2) have idle: "inflight ?s = []"
    by (simp add: one_in_flight_def)
  have first: "orders_resolved out (fetchOrders pageNum reset ?s)
         = ?s\<lparr>loading := False,
              requests := requests ?s @ [GetOrders pageNum],
              console := console ?s @
                 (if out = RespNotOk then [] else [''Error fetching orders:''])\<rparr>"
    using assms idle
    by (auto simp: fetchOrders_def orders_resolved_def finish_def console_error_def)
  have second: "orders_resolved out t
         = t\<lparr>loading := False, isLoadingRef := False, inflight := rest,
             console := console t @
                 (if out = RespNotOk then [] else [''Error fetching orders:''])\<rparr>"
    if "inflight t = AwaitOrders pageNum reset # rest" for t rest
    using assms(3) that
    by (auto simp: orders_resolved_def finish_def console_error_def)
  show ?thesis
    unfolding first using second assms(2) idle by simp
qed

theorem failed_fetch_keeps_the_cache_witness:
  "\<not> no_session_user (run init_state [signed_in, InitialLoad, OrdersResolved (RespData page_one)])
   \<and> \<not> isLoadingRef (run init_state [signed_in, InitialLoad, OrdersResolved (RespData page_one)])
   \<and> orders (orders_resolved FetchThrew (fetchOrders 2 False
         (run init_state [signed_in, InitialLoad, OrdersResolved (RespData page_one)])))
       = [order_a, order_b]
   \<and> page (orders_resolved FetchThrew (fetchOrders 2 False
         (run init_state [signed_in, InitialLoad, OrdersResolved (RespData page_one)])))
       = 1
   \<and> loading (orders_resolved FetchThrew (fetchOrders 2 False
         (run init_state [signed_in, InitialLoad, OrdersResolved (RespData page_one)])))
       = False
   \<and> console (orders_resolved FetchThrew (fetchOrders 2 False
         (run init_state [signed_in, InitialLoad, OrdersResolved (RespData page_one)])))
       = [''Error fetching orders:'']
   \<and> inflight (fetchOrders 2 False
         (run init_state [signed_in, InitialLoad, OrdersResolved (RespData page_one)]))
       = [AwaitOrders 2 False]"
  using failed_fetch_keeps_the_cache
          [of "[signed_in, InitialLoad, OrdersResolved (RespData page_one)]" FetchThrew 2 False]
  by (simp add: signed_in_def init_state_def initial_load_def no_session_user_def
      fetchOrders_def orders_resolved_def orders_arrived_def finish_def page_one_def)

subsection \<open>Duplicate ids\<close>

lemma ids_abc: "order_id order_c = ''c''"
  by (simp add: order_c_def)

lemma ids_updateOrder:
  "p_id P = None \<or> p_id P = Some oid \<Longrightarrow>
   map order_id (orders (updateOrder oid P s)) = map order_id (orders s)"
  by (auto simp: updateOrder_def merge_order_def)

lemma ids_handle:
  "map order_id (orders (handleOrderStatusUpdate n s)) = map order_id (orders s)"
  by (simp add: handleOrderStatusUpdate_def apply_update_def Let_def setTimeout_def ids_updateOrder no_updates_def)

lemma distinct_removeOrder:
  "distinct (map order_id (orders s)) \<Longrightarrow> distinct (map order_id (orders (removeOrder oid s)))"
  by (simp add: removeOrder_def distinct_map_filter)

lemma orders_fetchOrders: "orders (fetchOrders p r s) = orders s"
  by (simp add: fetchOrders_def)

lemma orders_orders_arrived:
  "orders (orders_arrived p r d s)
   = (if r \<or> p = 1 then resp_orders d else orders s @ resp_orders d)"
  by (simp add: orders_arrived_def finish_def Let_def split: option.splits)

lemma orders_finish: "orders (finish s) = orders s"
  by (simp add: finish_def)

lemma distinct_orders_resolved:
  assumes "keeps_ids s (OrdersResolved out)" and "distinct (map order_id (orders s))"
  shows "distinct (map order_id (orders (orders_resolved out s)))"
proof (cases "inflight s")
  case Nil
  then show ?thesis using assms(2) by (simp add: orders_resolved_def)
next
  case (Cons w rest)
  show ?thesis
  proof (cases w)
    case AwaitUser
    then show ?thesis using Cons assms(2) by (simp add: orders_resolved_def)
  next
    case (AwaitOrders p r)
    show ?thesis
    proof (cases out)
      case (RespData d)
      have fresh: "distinct (map order_id (resp_orders d))"
        and apart: "r \<or> p = 1 \<or>
          set (map order_id (orders s)) \<inter> set (map order_id (resp_orders d)) = {}"
        using assms(1) Cons AwaitOrders RespData by (auto simp: Int_commute)
      show ?thesis
        using fresh apart assms(2) Cons AwaitOrders RespData
        by (auto simp: orders_resolved_def orders_orders_arrived)
    qed (use Cons AwaitOrders assms(2) in
          \<open>simp_all add: orders_resolved_def orders_finish console_error_def\<close>)
  qed
qed

lemma orders_user_resolved: "orders (user_resolved out s) = orders s"
  by (simp add: user_resolved_def finish_def console_error_def
      split: list.splits pending.splits user_outcome.splits)

lemma distinct_fire_timer:
  "distinct (map order_id (orders s)) \<Longrightarrow> distinct (map order_id (orders (fire_timer i s)))"
  by (simp add: fire_timer_def removeOrder_def distinct_map_filter)

lemma step_distinct:
  assumes "keeps_ids s e" and "distinct (map order_id (orders s))"
  shows "distinct (map order_id (orders (step e s)))"
proof (cases e)
  case (OrdersResolved out)
  then show ?thesis using assms by (simp add: distinct_orders_resolved)
next
  case (UpdateOrder oid P)
  then show ?thesis using assms by (simp add: ids_updateOrder)
qed (use assms in \<open>simp_all add: initial_load_def loadMore_def refetch_def refreshSession_def
      console_error_def orders_fetchOrders orders_user_resolved distinct_removeOrder
      ids_handle distinct_fire_timer\<close>)

lemma run_distinct:
  "well_fed s es \<Longrightarrow> distinct (map order_id (orders s)) \<Longrightarrow>
   distinct (map order_id (orders (run s es)))"
  by (induction es arbitrary: s) (simp_all add: step_distinct)

text \<open>
  After the first page \<open>[order_a, order_b]\<close>, a second page that repeats \<open>order_b\<close> is
  appended as it is: the list has two entries with the id of \<open>order_b\<close>.
\<close>

theorem page_append_duplicates_counterexample:
  "orders (run init_state
     [signed_in, InitialLoad, OrdersResolved (RespData page_one), LoadMore,
      OrdersResolved (RespData page_two_shifted)])
     = [order_a, order_b, order_b, order_c]
   \<and> \<not> distinct (map order_id (orders (run init_state
     [signed_in, InitialLoad, OrdersResolved (RespData page_one), LoadMore,
      OrdersResolved (RespData page_two_shifted)])))"
  by (simp add: signed_in_def init_state_def initial_load_def no_session_user_def
      fetchOrders_def orders_resolved_def orders_arrived_def finish_def loadMore_def
      page_one_def page_two_shifted_def)

text \<open>
  Claim C1, amended. The hook does not de-duplicate. For every execution from the empty
  initial state in which every fetched page has pairwise distinct ids, every page that is
  appended (page above 1, no reset) brings no id the cached list already has, and no
  \<open>updateOrder\<close> carries another id than the one it is addressed to, the list has at
  most one entry per id.
\<close>

theorem no_duplicate_ids:
  "well_fed init_state es \<Longrightarrow> distinct (map order_id (orders (run init_state es)))"
  by (rule run_distinct) (simp_all add: init_state_def)

theorem no_duplicate_ids_witness:
  "well_fed init_state
     [signed_in, InitialLoad, OrdersResolved (RespData page_one), LoadMore,
      OrdersResolved (RespData page_two),
      UpdateOrder ''a'' (no_updates\<lparr>p_status := Some ''IN_PROGRESS''\<rparr>), RemoveOrder ''b'']
   \<and> map order_id (orders (run init_state
     [signed_in, InitialLoad, OrdersResolved (RespData page_one), LoadMore,
      OrdersResolved (RespData page_two),
      UpdateOrder ''a'' (no_updates\<lparr>p_status := Some ''IN_PROGRESS''\<rparr>), RemoveOrder ''b'']))
     = [''a'', ''c'']
   \<and> distinct (map order_id (orders (run init_state
     [signed_in, InitialLoad, OrdersResolved (RespData page_one), LoadMore,
      OrdersResolved (RespData page_two),
      UpdateOrder ''a'' (no_updates\<lparr>p_status := Some ''IN_PROGRESS''\<rparr>), RemoveOrder ''b''])))"
  using no_duplicate_ids [of
     "[signed_in, InitialLoad, OrdersResolved (RespData page_one), LoadMore,
      OrdersResolved (RespData page_two),
      UpdateOrder ''a'' (no_updates\<lparr>p_status := Some ''IN_PROGRESS''\<rparr>), RemoveOrder ''b'']"]
  by (simp add: signed_in_def init_state_def initial_load_def no_session_user_def
      fetchOrders_def orders_resolved_def orders_arrived_def finish_def loadMore_def
      page_one_def page_two_def updateOrder_def removeOrder_def merge_order_def
      no_updates_def ids_ab ids_abc)

section \<open>Properties of the edit form\<close>

lemma price_key_not_empty: "price_key toString ord t currentPrice \<noteq> []"
  by (simp add: price_key_def)

lemma draft_a_fields:
  "formData draft_a = \<lparr>form_tier = 3, form_pricePerUnit = 8, form_amount = 40,
                         form_orderType = ''SELL''\<rparr>"
  "lastPriceUpdateRef draft_a = []" "\<not> userEditedPrice draft_a" "formInitialized draft_a"
  "\<not> tierChanged draft_a"
  by (simp_all add: draft_a_def order_changed_def modal_init_def order_a_def)

lemma opened_late_a_fields:
  "formData opened_late_a = \<lparr>form_tier = 3, form_pricePerUnit = 8, form_amount = 40,
                               form_orderType = ''SELL''\<rparr>"
  "lastPriceUpdateRef opened_late_a = []" "\<not> userEditedPrice opened_late_a"
  "\<not> formInitialized opened_late_a" "\<not> tierChanged opened_late_a"
  by (simp_all add: opened_late_a_def open_changed_def order_changed_def modal_init_def
      order_a_def)

lemma filled_a_fields:
  "formData filled_a = \<lparr>form_tier = 5, form_pricePerUnit = 12.5, form_amount = 40,
                          form_orderType = ''SELL''\<rparr>"
  "lastPriceUpdateRef filled_a = ''salmon-5-12.5''" "\<not> userEditedPrice filled_a"
  "formInitialized filled_a" "tierChanged filled_a"
  by (simp_all add: filled_a_def autofill_def handleTierChange_def draft_a_fields price_key_def
      as_text_def order_a_def)

text \<open>The sample drafts are what the effects of the renders leave.\<close>

lemma mounted_open: "commit toString None mount_a = draft_a"
  by (simp add: commit_def dep_changed_def mount_a_def draft_a_def open_changed_def
      autofill_def modal_init_def)

lemma mounted_closed_then_opened:
  "commit toString None mount_closed_a = opened_late_a"
  "commit toString (Some mount_closed_a) (mount_closed_a\<lparr>v_state := opened_late_a\<rparr>)
     = opened_late_a"
  "commit toString (Some (mount_closed_a\<lparr>v_state := opened_late_a\<rparr>))
     (mount_closed_a\<lparr>v_isOpen := True, v_state := opened_late_a\<rparr>) = opened_late_a"
  by (simp_all add: commit_def dep_changed_def mount_closed_a_def opened_late_a_def
      open_changed_def order_changed_def autofill_def modal_init_def order_dep_def
      autofill_deps_def Let_def)

subsection \<open>The autofill effect\<close>

text \<open>
  Two runs of the effect. In the dialog opened late on \<open>order_a\<close>, after the tier was
  changed to 5 and with 12.5 as the price of that tier, the price was not edited, the tier
  has changed and the key differs from the ref, and yet the effect leaves the draft, price
  8 included, as it is: the form was not marked initialized. And when \<open>order_b\<close>, whose
  price is 2, is put into the open dialog that shows the draft of \<open>order_a\<close> with its
  tier changed, the effect runs with the flags of that render after the ref was cleared,
  and the draft of \<open>order_b\<close> has the price 99 before any tier change of its own; the
  render after that changes nothing.
\<close>

theorem autofill_fires_counterexample:
  "\<not> userEditedPrice (handleTierChange 5 opened_late_a)
   \<and> tierChanged (handleTierChange 5 opened_late_a)
   \<and> lastPriceUpdateRef (handleTierChange 5 opened_late_a)
       \<noteq> price_key as_text order_a (form_tier (formData (handleTierChange 5 opened_late_a)))
           (Some 12.5)
   \<and> form_pricePerUnit (formData (handleTierChange 5 opened_late_a)) = 8
   \<and> autofill as_text (Some order_a) (Some 12.5) (handleTierChange 5 opened_late_a)
        (handleTierChange 5 opened_late_a)
       = handleTierChange 5 opened_late_a
   \<and> pricePerUnit order_b = 2
   \<and> formData (commit as_text (Some shows_filled_a) loads_b)
       = \<lparr>form_tier = 5, form_pricePerUnit = 99, form_amount = 7, form_orderType = ''BUY''\<rparr>
   \<and> \<not> tierChanged (commit as_text (Some shows_filled_a) loads_b)
   \<and> \<not> userEditedPrice (commit as_text (Some shows_filled_a) loads_b)
   \<and> commit as_text (Some loads_b) shows_b = commit as_text (Some shows_filled_a) loads_b"
  by (simp add: handleTierChange_def opened_late_a_fields autofill_def price_key_def
      commit_def dep_changed_def order_dep_def autofill_deps_def shows_filled_a_def
      loads_b_def shows_b_def filled_a_fields order_changed_def open_changed_def
      order_a_def order_b_def as_text_def)

text \<open>
  Claim C2, amended. The effect is evaluated with an order loaded, in a draft state that is
  the one its render saw. With the form marked initialized, it leaves the draft unchanged
  when the key (item name, tier, price of the pricing hook) equals
  \<^verbatim>\<open>lastPriceUpdateRef\<close>; otherwise it overwrites \<^verbatim>\<open>pricePerUnit\<close> with that price and
  records the key exactly when the price was not edited by hand, the tier has changed and
  the price is not \<^verbatim>\<open>null\<close>, and leaves the draft unchanged when one of the three fails.
  It never fires when the rendered draft has neither flag set, whatever was written since
  the render: so not on the load of an order over such a draft, before any tier change.
  Without an order, or when the rendered form is not marked initialized, it does nothing.
\<close>

theorem autofill_effect:
  "(formInitialized s \<longrightarrow>
      (lastPriceUpdateRef s = price_key toString ord (form_tier (formData s)) cp \<longrightarrow>
         autofill toString (Some ord) cp s s = s)
    \<and> (lastPriceUpdateRef s \<noteq> price_key toString ord (form_tier (formData s)) cp \<longrightarrow>
         (\<forall>p. \<not> userEditedPrice s \<and> tierChanged s \<and> cp = Some p \<longrightarrow>
            autofill toString (Some ord) cp s s
            = s\<lparr>formData := (formData s)\<lparr>form_pricePerUnit := p\<rparr>,
                lastPriceUpdateRef := price_key toString ord (form_tier (formData s)) cp\<rparr>)
       \<and> (userEditedPrice s \<or> \<not> tierChanged s \<or> cp = None \<longrightarrow>
            autofill toString (Some ord) cp s s = s)))
   \<and> (\<not> userEditedPrice c \<and> \<not> tierChanged c \<longrightarrow>
        autofill toString ordr cp c t = t
        \<and> autofill toString ordr cp c (order_changed loaded c) = order_changed loaded c)
   \<and> (\<not> formInitialized c \<longrightarrow> autofill toString ordr cp c t = t)
   \<and> autofill toString None cp c t = t"
  by (auto simp: autofill_def Let_def split: option.splits)

theorem autofill_effect_witness:
  "formInitialized (handleTierChange 5 draft_a)
   \<and> lastPriceUpdateRef (handleTierChange 5 draft_a) \<noteq> price_key as_text order_a 5 (Some 12.5)
   \<and> \<not> userEditedPrice (handleTierChange 5 draft_a)
   \<and> tierChanged (handleTierChange 5 draft_a)
   \<and> form_pricePerUnit (formData (handleTierChange 5 draft_a)) = 8
   \<and> form_pricePerUnit (formData filled_a) = 12.5
   \<and> lastPriceUpdateRef filled_a = ''salmon-5-12.5''
   \<and> autofill as_text (Some order_a) (Some 12.5) filled_a filled_a = filled_a
   \<and> \<not> userEditedPrice draft_a \<and> \<not> tierChanged draft_a
   \<and> autofill as_text (Some order_a) (Some 12.5) draft_a draft_a = draft_a
   \<and> autofill as_text (Some order_b) (Some 99) draft_a (order_changed (Some order_b) draft_a)
       = order_changed (Some order_b) draft_a
   \<and> \<not> formInitialized modal_init
   \<and> autofill as_text (Some order_a) (Some 8) modal_init draft_a = draft_a
   \<and> autofill as_text (Some order_a) (Some 20) (handlePriceChange read_price ''7'' draft_a)
        (handlePriceChange read_price ''7'' draft_a)
       = handlePriceChange read_price ''7'' draft_a"
  using autofill_effect [where s = "handleTierChange 5 draft_a" and toString = as_text
          and ord = order_a and cp = "Some 12.5" and c = draft_a and t = draft_a
          and ordr = "Some order_a" and loaded = "Some order_b"]
        autofill_effect [where s = filled_a and toString = as_text
          and ord = order_a and cp = "Some 12.5" and c = modal_init and t = draft_a
          and ordr = "Some order_a" and loaded = "Some order_b"]
  by (simp add: handleTierChange_def handlePriceChange_def draft_a_fields filled_a_fields
      autofill_def price_key_def as_text_def read_price_def order_a_def modal_init_def
      Let_def)

subsection \<open>Changing the tier\<close>

text \<open>
  The dialog opened late on \<open>order_a\<close>: after a tier change to 5 the flags and the ref
  are as after any tier change, and the effect, run for the render that shows the new
  tier with 12.5 as its price, leaves the price at 8; after the price was typed as 9.99,
  it leaves it at 9.99.
\<close>

theorem tier_change_not_rearmed_counterexample:
  "form_tier (formData (handleTierChange 5 opened_late_a)) = 5
   \<and> tierChanged (handleTierChange 5 opened_late_a)
   \<and> \<not> userEditedPrice (handleTierChange 5 opened_late_a)
   \<and> lastPriceUpdateRef (handleTierChange 5 opened_late_a) = []
   \<and> form_pricePerUnit (formData
        (autofill as_text (Some order_a) (Some 12.5) (handleTierChange 5 opened_late_a)
           (handleTierChange 5 opened_late_a))) = 8
   \<and> form_pricePerUnit (formData
        (autofill as_text (Some order_a) (Some 12.5)
           (handleTierChange 5 (handlePriceChange read_price ''9.99'' opened_late_a))
           (handleTierChange 5 (handlePriceChange read_price ''9.99'' opened_late_a)))) = 9.99"
  by (simp add: handleTierChange_def handlePriceChange_def opened_late_a_fields autofill_def
      read_price_def)

text \<open>
  Claim C5, amended. In every draft state, also one whose price was edited by hand, a tier
  change to \<open>v\<close> sets the tier to \<open>v\<close>, sets \<^verbatim>\<open>tierChanged\<close>, resets \<^verbatim>\<open>userEditedPrice\<close>
  and clears \<^verbatim>\<open>lastPriceUpdateRef\<close>, leaving the other fields. In a form marked
  initialized the effect is armed again: run for the render that shows the new tier, it
  fills in whatever price the pricing hook has for it. In a form not marked initialized
  the effect still does nothing after the tier change.
\<close>

theorem handleTierChange_rearms:
  "form_tier (formData (handleTierChange v s)) = v
   \<and> tierChanged (handleTierChange v s)
   \<and> \<not> userEditedPrice (handleTierChange v s)
   \<and> lastPriceUpdateRef (handleTierChange v s) = []
   \<and> form_pricePerUnit (formData (handleTierChange v s)) = form_pricePerUnit (formData s)
   \<and> form_amount (formData (handleTierChange v s)) = form_amount (formData s)
   \<and> form_orderType (formData (handleTierChange v s)) = form_orderType (formData s)
   \<and> formInitialized (handleTierChange v s) = formInitialized s
   \<and> (formInitialized s \<longrightarrow>
        autofill toString (Some ord) (Some p) (handleTierChange v s) (handleTierChange v s)
        = (handleTierChange v s)
            \<lparr>formData := (formData (handleTierChange v s))\<lparr>form_pricePerUnit := p\<rparr>,
             lastPriceUpdateRef := price_key toString ord v (Some p)\<rparr>)
   \<and> (\<not> formInitialized s \<longrightarrow>
        autofill toString (Some ord) (Some p) (handleTierChange v s) (handleTierChange v s)
        = handleTierChange v s)"
  using price_key_not_empty [of toString ord v "Some p"]
  by (auto simp: handleTierChange_def autofill_def Let_def)

theorem handleTierChange_rearms_witness:
  "formInitialized draft_a
   \<and> form_pricePerUnit (formData filled_a) = 12.5
   \<and> userEditedPrice (handlePriceChange read_price ''9.99'' filled_a)
   \<and> form_pricePerUnit (formData (handlePriceChange read_price ''9.99'' filled_a)) = 9.99
   \<and> form_pricePerUnit (formData
        (autofill as_text (Some order_a) (Some 20)
           (handleTierChange 6 (handlePriceChange read_price ''9.99'' filled_a))
           (handleTierChange 6 (handlePriceChange read_price ''9.99'' filled_a)))) = 20
   \<and> \<not> formInitialized opened_late_a
   \<and> autofill as_text (Some order_a) (Some 12.5) (handleTierChange 5 opened_late_a)
        (handleTierChange 5 opened_late_a)
       = handleTierChange 5 opened_late_a"
  using handleTierChange_rearms [of 5 draft_a as_text order_a "12.5"]
        handleTierChange_rearms [of 6 "handlePriceChange read_price ''9.99'' filled_a"
              as_text order_a 20]
        handleTierChange_rearms [of 5 opened_late_a as_text order_a "12.5"]
  by (simp add: handleTierChange_def handlePriceChange_def draft_a_fields filled_a_fields
      opened_late_a_fields autofill_def price_key_def as_text_def read_price_def order_a_def)

subsection \<open>Validation on submit\<close>

text \<open>
  Claim C6. A submit calls \<^verbatim>\<open>onConfirm\<close>, with the form data as they are, exactly when
  none of \<open>tier < 1\<close>, \<open>tier > 10\<close>, \<open>pricePerUnit \<le> 0\<close>, \<open>amount \<le> 0\<close> holds, and
  alerts otherwise: on the tier first, then the price, then the amount, each with a
  message of its own. Tiers 0 and 11 are rejected and tiers 1 and 10 accepted, price 0 is
  rejected and 0.001 accepted, amount 0 is rejected and 1 accepted, the other fields
  being valid where the submit is accepted.
\<close>

theorem handleSubmit_validation:
  "(handleSubmit s = OnConfirm (formData s))
     = (\<not> (form_tier (formData s) < 1 \<or> form_tier (formData s) > 10 \<or>
           form_pricePerUnit (formData s) \<le> 0 \<or> form_amount (formData s) \<le> 0))
   \<and> (\<exists>msg. handleSubmit s = Alert msg)
     = (form_tier (formData s) < 1 \<or> form_tier (formData s) > 10 \<or>
        form_pricePerUnit (formData s) \<le> 0 \<or> form_amount (formData s) \<le> 0)
   \<and> (\<forall>f. handleSubmit s = OnConfirm f \<longrightarrow> f = formData s)
   \<and> (form_tier (formData s) < 1 \<or> form_tier (formData s) > 10 \<longrightarrow>
        handleSubmit s = Alert ''Tier must be between 1 and 10'')
   \<and> (1 \<le> form_tier (formData s) \<and> form_tier (formData s) \<le> 10 \<and>
      form_pricePerUnit (formData s) \<le> 0 \<longrightarrow>
        handleSubmit s = Alert ''Price must be greater than 0'')
   \<and> (1 \<le> form_tier (formData s) \<and> form_tier (formData s) \<le> 10 \<and>
      0 < form_pricePerUnit (formData s) \<and> form_amount (formData s) \<le> 0 \<longrightarrow>
        handleSubmit s = Alert ''Amount must be greater than 0'')
   \<and> distinct [''Tier must be between 1 and 10'', ''Price must be greater than 0'',
                ''Amount must be greater than 0'']
   \<and> (\<forall>t. t = 0 \<or> t = 11 \<longrightarrow>
        handleSubmit (s\<lparr>formData := \<lparr>form_tier = t, form_pricePerUnit = p, form_amount = a,
                                      form_orderType = ty\<rparr>\<rparr>)
        = Alert ''Tier must be between 1 and 10'')
   \<and> (\<forall>t. (t = 1 \<or> t = 10) \<and> 0 < p \<and> 0 < a \<longrightarrow>
        handleSubmit (s\<lparr>formData := \<lparr>form_tier = t, form_pricePerUnit = p, form_amount = a,
                                      form_orderType = ty\<rparr>\<rparr>)
        = OnConfirm \<lparr>form_tier = t, form_pricePerUnit = p, form_amount = a,
                      form_orderType = ty\<rparr>)
   \<and> (1 \<le> t \<and> t \<le> 10 \<longrightarrow>
        handleSubmit (s\<lparr>formData := \<lparr>form_tier = t, form_pricePerUnit = 0, form_amount = a,
                                      form_orderType = ty\<rparr>\<rparr>)
        = Alert ''Price must be greater than 0'')
   \<and> (1 \<le> t \<and> t \<le> 10 \<and> 0 < a \<longrightarrow>
        handleSubmit (s\<lparr>formData := \<lparr>form_tier = t, form_pricePerUnit = 0.001, form_amount = a,
                                      form_orderType = ty\<rparr>\<rparr>)
        = OnConfirm \<lparr>form_tier = t, form_pricePerUnit = 0.001, form_amount = a,
                      form_orderType = ty\<rparr>)
   \<and> (1 \<le> t \<and> t \<le> 10 \<and> 0 < p \<longrightarrow>
        handleSubmit (s\<lparr>formData := \<lparr>form_tier = t, form_pricePerUnit = p, form_amount = 0,
                                      form_orderType = ty\<rparr>\<rparr>)
        = Alert ''Amount must be greater than 0'')
   \<and> (1 \<le> t \<and> t \<le> 10 \<and> 0 < p \<longrightarrow>
        handleSubmit (s\<lparr>formData := \<lparr>form_tier = t, form_pricePerUnit = p, form_amount = 1,
                                      form_orderType = ty\<rparr>\<rparr>)
        = OnConfirm \<lparr>form_tier = t, form_pricePerUnit = p, form_amount = 1,
                      form_orderType = ty\<rparr>)"
  by (auto simp: handleSubmit_def)

theorem handleSubmit_validation_witness:
  "handleSubmit draft_a = OnConfirm (formData draft_a)
   \<and> handleSubmit (draft_a\<lparr>formData := \<lparr>form_tier = 0, form_pricePerUnit = 8, form_amount = 40,
                                          form_orderType = ''SELL''\<rparr>\<rparr>)
       = Alert ''Tier must be between 1 and 10''
   \<and> handleSubmit (draft_a\<lparr>formData := \<lparr>form_tier = 11, form_pricePerUnit = 8, form_amount = 40,
                                          form_orderType = ''SELL''\<rparr>\<rparr>)
       = Alert ''Tier must be between 1 and 10''
   \<and> handleSubmit (draft_a\<lparr>formData := \<lparr>form_tier = 1, form_pricePerUnit = 8, form_amount = 40,
                                          form_orderType = ''SELL''\<rparr>\<rparr>)
       = OnConfirm \<lparr>form_tier = 1, form_pricePerUnit = 8, form_amount = 40,
                     form_orderType = ''SELL''\<rparr>
   \<and> handleSubmit (draft_a\<lparr>formData := \<lparr>form_tier = 10, form_pricePerUnit = 8, form_amount = 40,
                                          form_orderType = ''SELL''\<rparr>\<rparr>)
       = OnConfirm \<lparr>form_tier = 10, form_pricePerUnit = 8, form_amount = 40,
                     form_orderType = ''SELL''\<rparr>
   \<and> handleSubmit (draft_a\<lparr>formData := \<lparr>form_tier = 3, form_pricePerUnit = 0, form_amount = 40,
                                          form_orderType = ''SELL''\<rparr>\<rparr>)
       = Alert ''Price must be greater than 0''
   \<and> handleSubmit (draft_a\<lparr>formData := \<lparr>form_tier = 3, form_pricePerUnit = 0.001,
                                          form_amount = 40, form_orderType = ''SELL''\<rparr>\<rparr>)
       = OnConfirm \<lparr>form_tier = 3, form_pricePerUnit = 0.001, form_amount = 40,
                     form_orderType = ''SELL''\<rparr>
   \<and> handleSubmit (draft_a\<lparr>formData := \<lparr>form_tier = 3, form_pricePerUnit = 8, form_amount = 0,
                                          form_orderType = ''SELL''\<rparr>\<rparr>)
       = Alert ''Amount must be greater than 0''
   \<and> handleSubmit (draft_a\<lparr>formData := \<lparr>form_tier = 3, form_pricePerUnit = 8, form_amount = 1,
                                          form_orderType = ''SELL''\<rparr>\<rparr>)
       = OnConfirm \<lparr>form_tier = 3, form_pricePerUnit = 8, form_amount = 1,
                     form_orderType = ''SELL''\<rparr>"
  using handleSubmit_validation
          [where s = draft_a and p = 8 and a = 40 and ty = "''SELL''" and t = 3]
  by (simp add: handleSubmit_def draft_a_fields)

end
